theory Spec2Isabelle
  imports Complex_Main
begin

section \<open>JavaScript values at the boundary of server/index.js\<close>

text \<open>
  A value decoded from a JSON request body or a WebSocket frame. JSON numbers are finite,
  so \<open>JNumber\<close> carries a rational: the decimal the number prints as, which is what the
  text of an SQL statement carries, and on which the comparisons of the handlers (\<open><=\<close>,
  \<open><\<close>) agree with those of the doubles. A number that is computed (\<open>Number(x)\<close>,
  \<open>new Date(s).getTime()\<close>) may be NaN and has type \<open>jsnum\<close>. Infinite numbers are not
  represented. An object or array is opaque: \<open>JObject n\<close> keeps only the result \<open>n\<close> of its
  numeric conversion.
\<close>

datatype jsnum = Fin rat | NaN

datatype jsval =
    JUndefined
  | JNull
  | JBool bool
  | JNumber rat
  | JString string
  | JObject jsnum

datatype jstype = TUndefined | TObject | TBoolean | TNumber | TString

fun typeof :: "jsval \<Rightarrow> jstype" where
  "typeof JUndefined = TUndefined"
| "typeof JNull = TObject"
| "typeof (JBool b) = TBoolean"
| "typeof (JNumber r) = TNumber"
| "typeof (JString s) = TString"
| "typeof (JObject n) = TObject"

text \<open>\<open>!n\<close> for a number: true for 0 and NaN.\<close>

fun falsy_num :: "jsnum \<Rightarrow> bool" where
  "falsy_num (Fin r) = (r = 0)"
| "falsy_num NaN = True"

text \<open>Truthiness of a value, as \<open>x || y\<close> tests it.\<close>

fun truthy :: "jsval \<Rightarrow> bool" where
  "truthy JUndefined = False"
| "truthy JNull = False"
| "truthy (JBool b) = b"
| "truthy (JNumber r) = (r \<noteq> 0)"
| "truthy (JString s) = (s \<noteq> [])"
| "truthy (JObject n) = True"

text \<open>
  \<open>Number(x)\<close>. The conversion of a string is the language's own (StringToNumber); it is
  the parameter \<open>S\<close>.
\<close>

fun js_Number :: "(string \<Rightarrow> jsnum) \<Rightarrow> jsval \<Rightarrow> jsnum" where
  "js_Number S JUndefined = NaN"
| "js_Number S JNull = Fin 0"
| "js_Number S (JBool b) = Fin (if b then 1 else 0)"
| "js_Number S (JNumber r) = Fin r"
| "js_Number S (JString s) = S s"
| "js_Number S (JObject n) = n"

section \<open>The persisted table \<open>auctions\<close>\<close>

text \<open>
  One row of the table created by \<open>ensureSchema\<close>. Instants are milliseconds since the
  epoch. The table is the list of its rows; the primary key makes the ids distinct, which
  is a hypothesis wherever a theorem needs it. The column \<open>created_at\<close>, which no handler
  reads, is left out.
\<close>

datatype status = Pending | Running | Ended

record auction =
  aid :: int
  name :: string
  start_time :: int
  end_time :: int
  current_price :: rat
  status :: status

text \<open>\<open>SELECT ... FROM auctions WHERE id = ? LIMIT 1\<close>.\<close>

definition sql_select_by_id :: "auction list \<Rightarrow> rat \<Rightarrow> auction list" where
  "sql_select_by_id tbl i =
     (case find (\<lambda>a. rat_of_int (aid a) = i) tbl of None \<Rightarrow> [] | Some a \<Rightarrow> [a])"

text \<open>
  The column \<open>current_price\<close> is declared \<open>DECIMAL(10,2)\<close>. A value assigned to it is
  rounded to two decimals, a half away from zero, and the assignment of a value that then
  needs more than ten digits is refused: the statement raises (\<open>None\<close>) and writes
  nothing, as the strict mode of the database has it.
\<close>

definition decimal_10_2 :: "rat \<Rightarrow> rat option" where
  "decimal_10_2 x =
     (let n = (if 0 \<le> x then \<lfloor>x * 100 + 1 / 2\<rfloor> else - \<lfloor>- x * 100 + 1 / 2\<rfloor>)
      in if \<bar>n\<bar> < 10 ^ 10 then Some (rat_of_int n / 100) else None)"

text \<open>
  \<open>UPDATE auctions SET current_price = ?, status = ? WHERE id = ?\<close>. Nothing is assigned
  when no row has the id.
\<close>

definition sql_update_price ::
  "auction list \<Rightarrow> rat \<Rightarrow> status \<Rightarrow> rat \<Rightarrow> auction list option" where
  "sql_update_price tbl amount s i =
     (if find (\<lambda>a. rat_of_int (aid a) = i) tbl = None then Some tbl
      else case decimal_10_2 amount of
             None \<Rightarrow> None
           | Some v \<Rightarrow>
               Some (map (\<lambda>a. if rat_of_int (aid a) = i
                               then a\<lparr>current_price := v, status := s\<rparr> else a) tbl))"

text \<open>\<open>UPDATE auctions SET status = ? WHERE id = ?\<close>.\<close>

definition sql_update_status :: "auction list \<Rightarrow> status \<Rightarrow> int \<Rightarrow> auction list" where
  "sql_update_status tbl s i = map (\<lambda>a. if aid a = i then a\<lparr>status := s\<rparr> else a) tbl"

text \<open>\<open>SELECT * FROM auctions WHERE status != 'ended' AND end_time <= ?\<close>.\<close>

definition sql_select_expired :: "auction list \<Rightarrow> int \<Rightarrow> auction list" where
  "sql_select_expired tbl t = filter (\<lambda>a. status a \<noteq> Ended \<and> end_time a \<le> t) tbl"

text \<open>
  \<open>formatDateTime\<close> prints an instant with a resolution of one second: as a bound in a
  comparison it is the instant truncated to the second.
\<close>

definition formatDateTime :: "int \<Rightarrow> int" where
  "formatDateTime d = (d div 1000) * 1000"

section \<open>Messages and the state of the server\<close>

text \<open>The \<open>data\<close> of a \<open>bidUpdate\<close> message.\<close>

record bid_payload =
  auctionId :: jsnum
  newPrice :: rat
  userId :: jsval
  serverTime :: int

datatype message =
    AuctionData auction int
  | BidUpdate bid_payload
  | AuctionEnded jsnum int

type_synonym conn = nat

text \<open>
  \<open>rooms\<close> is the \<open>Map\<close> from auction id to the \<open>Set\<close> of connections, a set being the list
  of its members in insertion order; \<open>ws_auctionId\<close> is the field \<open>_auctionId\<close> of each
  connection (\<open>None\<close> for undefined or null); \<open>ws_open\<close> says whose \<open>readyState\<close> is OPEN;
  \<open>outbox\<close> lists the calls of \<open>send\<close>, oldest first.
\<close>

record server =
  rooms :: "jsnum \<Rightarrow> conn list option"
  ws_auctionId :: "conn \<Rightarrow> jsnum option"
  ws_open :: "conn \<Rightarrow> bool"
  db :: "auction list"
  outbox :: "(conn \<times> message) list"

section \<open>The room registry\<close>

text \<open>
  \<open>add\<close> and \<open>delete\<close> of a \<open>Set\<close>. \<open>joinRoom\<close> and \<open>broadcastToAuction\<close> start with
  \<open>Number(auctionId)\<close>; their callers pass a number, on which \<open>Number\<close> is the identity, so
  the functions below take the number.
\<close>

definition set_add :: "conn \<Rightarrow> conn list \<Rightarrow> conn list" where
  "set_add ws r = (if ws \<in> set r then r else r @ [ws])"

definition set_delete :: "conn \<Rightarrow> conn list \<Rightarrow> conn list" where
  "set_delete ws r = removeAll ws r"

definition joinRoom :: "conn \<Rightarrow> jsnum \<Rightarrow> server \<Rightarrow> server" where
  "joinRoom ws i st =
     (if falsy_num i then st
      else
        let r = (case rooms st i of None \<Rightarrow> [] | Some r \<Rightarrow> r)
        in st\<lparr>rooms := (rooms st)(i \<mapsto> set_add ws r),
               ws_auctionId := (ws_auctionId st)(ws := Some i)\<rparr>)"

definition leaveRoom :: "conn \<Rightarrow> server \<Rightarrow> server" where
  "leaveRoom ws st =
     (case ws_auctionId st ws of
        None \<Rightarrow> st
      | Some i \<Rightarrow>
          if falsy_num i then st
          else
            let rs = (case rooms st i of
                        None \<Rightarrow> rooms st
                      | Some r \<Rightarrow>
                          let r' = set_delete ws r
                          in if length r' = 0 then (rooms st)(i := None)
                             else (rooms st)(i \<mapsto> r'))
            in st\<lparr>rooms := rs, ws_auctionId := (ws_auctionId st)(ws := None)\<rparr>)"

definition broadcastToAuction :: "jsnum \<Rightarrow> message \<Rightarrow> server \<Rightarrow> server" where
  "broadcastToAuction i payload st =
     (if falsy_num i then st
      else case rooms st i of
             None \<Rightarrow> st
           | Some r \<Rightarrow>
               st\<lparr>outbox := outbox st @ map (\<lambda>client. (client, payload)) (filter (ws_open st) r)\<rparr>)"

text \<open>The connections one call of \<open>broadcastToAuction\<close> sends to, in order.\<close>

definition recipients :: "server \<Rightarrow> jsnum \<Rightarrow> conn list" where
  "recipients st i =
     (if falsy_num i then []
      else case rooms st i of None \<Rightarrow> [] | Some r \<Rightarrow> filter (ws_open st) r)"

text \<open>A sequence of joins and leaves, applied from the left.\<close>

datatype room_op = Join conn jsnum | Leave conn

fun apply_room_op :: "room_op \<Rightarrow> server \<Rightarrow> server" where
  "apply_room_op (Join ws i) st = joinRoom ws i st"
| "apply_room_op (Leave ws) st = leaveRoom ws st"

fun run_room_ops :: "room_op list \<Rightarrow> server \<Rightarrow> server" where
  "run_room_ops [] st = st"
| "run_room_ops (x # xs) st = run_room_ops xs (apply_room_op x st)"

section \<open>The WebSocket handlers\<close>

text \<open>
  An inbound frame: one that is not JSON, or the fields \<open>type\<close> and \<open>payload.auctionId\<close>
  of the decoded object (\<open>JUndefined\<close> where absent). \<open>now\<close> is the \<open>new Date()\<close> of the
  reply. The \<open>SELECT\<close> of the handler is taken to succeed: when it raises, the handler logs
  the error and sends nothing.
\<close>

datatype inbound = NotJson | Json jsval jsval

definition on_message :: "(string \<Rightarrow> jsnum) \<Rightarrow> int \<Rightarrow> conn \<Rightarrow> inbound \<Rightarrow> server \<Rightarrow> server" where
  "on_message S now ws m st =
     (case m of
        NotJson \<Rightarrow> st
      | Json ty auctionId_field \<Rightarrow>
          if ty = JString ''joinAuction'' then
            let i = js_Number S auctionId_field in
            if falsy_num i then st
            else
              let st1 = joinRoom ws i st;
                  rows = (case i of Fin q \<Rightarrow> sql_select_by_id (db st1) q | NaN \<Rightarrow> [])
              in case rows of
                   [] \<Rightarrow> st1
                 | a # _ \<Rightarrow>
                     if ws_open st1 ws
                     then st1\<lparr>outbox := outbox st1 @ [(ws, AuctionData a now)]\<rparr>
                     else st1
          else st)"

definition on_close :: "conn \<Rightarrow> server \<Rightarrow> server" where
  "on_close ws st = leaveRoom ws st"

section \<open>The time-sync endpoint\<close>

datatype failure = InvalidInput | NotFound | NotStarted | Closed | PriceTooLow | StoreUnavailable

text \<open>The HTTP status each failure is answered with.\<close>

fun http_status :: "failure \<Rightarrow> nat" where
  "http_status InvalidInput = 400"
| "http_status NotFound = 404"
| "http_status NotStarted = 400"
| "http_status Closed = 400"
| "http_status PriceTooLow = 400"
| "http_status StoreUnavailable = 500"

record time_sync_reply =
  ts_serverTime :: int
  ts_clientTime :: jsnum

text \<open>
  \<open>POST /api/time-sync\<close>. \<open>D s\<close> is \<open>new Date(s).getTime()\<close>, the language's own parsing of
  a timestamp (NaN for a string it cannot read); \<open>now\<close> is the value of \<open>Date.now()\<close>.
\<close>

definition time_sync :: "(string \<Rightarrow> jsnum) \<Rightarrow> int \<Rightarrow> jsval \<Rightarrow> failure + time_sync_reply" where
  "time_sync D now clientTime =
     (if typeof clientTime \<noteq> TNumber \<and> typeof clientTime \<noteq> TString then Inl InvalidInput
      else Inr \<lparr>ts_serverTime = now,
                ts_clientTime = (case clientTime of
                                   JNumber r \<Rightarrow> Fin r
                                 | JString s \<Rightarrow> D s
                                 | _ \<Rightarrow> NaN)\<rparr>)"

section \<open>The bid endpoint\<close>

text \<open>
  \<open>POST /api/auctions/:id/bid\<close>: the route parameter and the fields \<open>amount\<close> and \<open>userId\<close>
  of the body (\<open>JUndefined\<close> where absent).
\<close>

record bid_request =
  param_id :: string
  body_amount :: jsval
  body_userId :: jsval

text \<open>What a request that passed every check carries to the \<open>UPDATE\<close>.\<close>

record pending_bid =
  pb_id :: rat
  pb_amount :: rat
  pb_userId :: jsval

text \<open>
  The handler awaits the store twice, so it runs in two parts, and other requests may run
  between them. \<open>bid_read\<close> is the part up to the \<open>UPDATE\<close>: the check of the arguments, the
  \<open>SELECT\<close> and the checks against the row it returned. \<open>now\<close> is the \<open>new Date()\<close> taken
  before the \<open>SELECT\<close>; \<open>select_throws\<close> says that the query raised, which the handler
  catches. The last branch of the \<open>case\<close> is not reached: the first check excludes it.
\<close>

definition bid_read ::
  "(string \<Rightarrow> jsnum) \<Rightarrow> int \<Rightarrow> bool \<Rightarrow> auction list \<Rightarrow> bid_request \<Rightarrow> failure + pending_bid" where
  "bid_read S now select_throws tbl req =
     (let i = S (param_id req); amount = body_amount req in
      if falsy_num i \<or> typeof amount \<noteq> TNumber
         \<or> (case amount of JNumber x \<Rightarrow> x \<le> 0 | _ \<Rightarrow> False)
      then Inl InvalidInput
      else if select_throws then Inl StoreUnavailable
      else case (i, amount) of
             (Fin q, JNumber x) \<Rightarrow>
               (case sql_select_by_id tbl q of
                  [] \<Rightarrow> Inl NotFound
                | a # _ \<Rightarrow>
                    if now < start_time a then Inl NotStarted
                    else if now > end_time a \<or> status a = Ended then Inl Closed
                    else if x \<le> current_price a then Inl PriceTooLow
                    else Inr \<lparr>pb_id = q, pb_amount = x, pb_userId = body_userId req\<rparr>)
           | _ \<Rightarrow> Inl InvalidInput)"

text \<open>
  \<open>bid_write\<close> is the rest of the handler: the \<open>UPDATE\<close>, the payload, the broadcast and
  the reply. \<open>now2\<close> is the \<open>new Date()\<close> of the payload; \<open>update_throws\<close> says that the
  store was not available for the \<open>UPDATE\<close>, which then raised and changed nothing. The
  \<open>UPDATE\<close> also raises when the column refuses the amount. The handler catches either.
\<close>

definition bid_write :: "int \<Rightarrow> bool \<Rightarrow> pending_bid \<Rightarrow> server \<Rightarrow> server \<times> (failure + bid_payload)" where
  "bid_write now2 update_throws pb st =
     (if update_throws then (st, Inl StoreUnavailable)
      else case sql_update_price (db st) (pb_amount pb) Running (pb_id pb) of
             None \<Rightarrow> (st, Inl StoreUnavailable)
           | Some tbl \<Rightarrow>
               let st1 = st\<lparr>db := tbl\<rparr>;
                   payload = \<lparr>auctionId = Fin (pb_id pb),
                              newPrice = pb_amount pb,
                              userId = (if truthy (pb_userId pb) then pb_userId pb
                                        else JString ''anonymous''),
                              serverTime = now2\<rparr>
               in (broadcastToAuction (Fin (pb_id pb)) (BidUpdate payload) st1, Inr payload))"

text \<open>The handler run from its first line to its reply with no other request in between.\<close>

definition bid ::
  "(string \<Rightarrow> jsnum) \<Rightarrow> int \<Rightarrow> int \<Rightarrow> bool \<Rightarrow> bool \<Rightarrow> bid_request \<Rightarrow> server
     \<Rightarrow> server \<times> (failure + bid_payload)" where
  "bid S now now2 select_throws update_throws req st =
     (case bid_read S now select_throws (db st) req of
        Inl e \<Rightarrow> (st, Inl e)
      | Inr pb \<Rightarrow> bid_write now2 update_throws pb st)"

text \<open>
  Two requests that overlap: both \<open>SELECT\<close>s are answered before either \<open>UPDATE\<close> is
  sent, then the first request writes, then the second. The first request reads the clock
  at \<open>now1\<close> and at \<open>stamp1\<close>, the second at \<open>now2\<close> and at \<open>stamp2\<close>.
\<close>

definition two_bids_overlapped ::
  "(string \<Rightarrow> jsnum) \<Rightarrow> int \<Rightarrow> int \<Rightarrow> int \<Rightarrow> int \<Rightarrow> bid_request \<Rightarrow> bid_request \<Rightarrow> server
     \<Rightarrow> (server \<times> (failure + bid_payload)) \<times> (server \<times> (failure + bid_payload))" where
  "two_bids_overlapped S now1 stamp1 now2 stamp2 req1 req2 st =
     (let v1 = bid_read S now1 False (db st) req1;
          v2 = bid_read S now2 False (db st) req2;
          o1 = (case v1 of
                  Inl e \<Rightarrow> (st, Inl e)
                | Inr pb \<Rightarrow> bid_write stamp1 False pb st);
          o2 = (case v2 of
                  Inl e \<Rightarrow> (fst o1, Inl e)
                | Inr pb \<Rightarrow> bid_write stamp2 False pb (fst o1))
      in (o1, o2))"

text \<open>The price the store holds for an auction id.\<close>

definition price_of :: "auction list \<Rightarrow> rat \<Rightarrow> rat option" where
  "price_of tbl i = map_option current_price (find (\<lambda>a. rat_of_int (aid a) = i) tbl)"

definition status_of :: "auction list \<Rightarrow> int \<Rightarrow> status option" where
  "status_of tbl i = map_option status (find (\<lambda>a. aid a = i) tbl)"

text \<open>The prices of the \<open>bidUpdate\<close> messages one connection was sent, oldest first.\<close>

fun bid_prices :: "conn \<Rightarrow> (conn \<times> message) list \<Rightarrow> rat list" where
  "bid_prices c [] = []"
| "bid_prices c ((c', BidUpdate p) # out) =
     (if c' = c then newPrice p # bid_prices c out else bid_prices c out)"
| "bid_prices c (_ # out) = bid_prices c out"

subsection \<open>The order of the checks\<close>

text \<open>
  The checks of a bid, each as a condition of its own on the request, the clock and the
  table. A check on the row holds when there is no row to check.
\<close>

definition row_of :: "(string \<Rightarrow> jsnum) \<Rightarrow> auction list \<Rightarrow> bid_request \<Rightarrow> auction option" where
  "row_of S tbl req =
     (case S (param_id req) of
        Fin q \<Rightarrow> find (\<lambda>a. rat_of_int (aid a) = q) tbl
      | NaN \<Rightarrow> None)"

definition id_resolves :: "(string \<Rightarrow> jsnum) \<Rightarrow> auction list \<Rightarrow> bid_request \<Rightarrow> bool" where
  "id_resolves S tbl req = (row_of S tbl req \<noteq> None)"

definition id_given :: "(string \<Rightarrow> jsnum) \<Rightarrow> bid_request \<Rightarrow> bool" where
  "id_given S req = (\<not> falsy_num (S (param_id req)))"

definition amount_positive :: "bid_request \<Rightarrow> bool" where
  "amount_positive req = (case body_amount req of JNumber x \<Rightarrow> 0 < x | _ \<Rightarrow> False)"

definition has_started :: "int \<Rightarrow> auction option \<Rightarrow> bool" where
  "has_started now row = (case row of None \<Rightarrow> True | Some a \<Rightarrow> start_time a \<le> now)"

definition still_open :: "int \<Rightarrow> auction option \<Rightarrow> bool" where
  "still_open now row =
     (case row of None \<Rightarrow> True | Some a \<Rightarrow> now \<le> end_time a \<and> status a \<noteq> Ended)"

definition exceeds_price :: "bid_request \<Rightarrow> auction option \<Rightarrow> bool" where
  "exceeds_price req row =
     (case (body_amount req, row) of
        (JNumber x, Some a) \<Rightarrow> current_price a < x
      | _ \<Rightarrow> True)"

text \<open>The failure of the first check of a list that does not hold.\<close>

fun first_failure :: "(bool \<times> failure) list \<Rightarrow> failure option" where
  "first_failure [] = None"
| "first_failure ((ok, e) # cs) = (if ok then first_failure cs else Some e)"

text \<open>The order the specification gives: existence first, then the amount.\<close>

definition spec_checks ::
  "(string \<Rightarrow> jsnum) \<Rightarrow> int \<Rightarrow> auction list \<Rightarrow> bid_request \<Rightarrow> (bool \<times> failure) list" where
  "spec_checks S now tbl req =
     [(id_resolves S tbl req, NotFound),
      (amount_positive req, InvalidInput),
      (has_started now (row_of S tbl req), NotStarted),
      (still_open now (row_of S tbl req), Closed),
      (exceeds_price req (row_of S tbl req), PriceTooLow)]"

text \<open>The order of the handler: the arguments first, then existence.\<close>

definition handler_checks ::
  "(string \<Rightarrow> jsnum) \<Rightarrow> int \<Rightarrow> auction list \<Rightarrow> bid_request \<Rightarrow> (bool \<times> failure) list" where
  "handler_checks S now tbl req =
     [(id_given S req \<and> amount_positive req, InvalidInput),
      (id_resolves S tbl req, NotFound),
      (has_started now (row_of S tbl req), NotStarted),
      (still_open now (row_of S tbl req), Closed),
      (exceeds_price req (row_of S tbl req), PriceTooLow)]"

definition failure_of :: "failure + 'a \<Rightarrow> failure option" where
  "failure_of r = (case r of Inl e \<Rightarrow> Some e | Inr _ \<Rightarrow> None)"

section \<open>The expiry sweeper\<close>

text \<open>
  One tick of the \<open>setInterval\<close> callback awaits the store too: \<open>sweep_apply\<close> is the loop
  over the rows the \<open>SELECT\<close> returned, \<open>sweep_tick\<close> the whole tick with nothing in
  between. \<open>clock i\<close> is the \<open>new Date()\<close> read for the message of auction \<open>i\<close>. The queries
  of the sweeper are taken to succeed: a tick whose query raises is caught and logged.
\<close>

fun sweep_apply :: "(int \<Rightarrow> int) \<Rightarrow> auction list \<Rightarrow> server \<Rightarrow> server" where
  "sweep_apply clock [] st = st"
| "sweep_apply clock (a # rows) st =
     sweep_apply clock rows
       (broadcastToAuction (Fin (rat_of_int (aid a)))
          (AuctionEnded (Fin (rat_of_int (aid a))) (clock (aid a)))
          (st\<lparr>db := sql_update_status (db st) Ended (aid a)\<rparr>))"

definition sweep_tick :: "int \<Rightarrow> (int \<Rightarrow> int) \<Rightarrow> server \<Rightarrow> server" where
  "sweep_tick now clock st =
     sweep_apply clock (sql_select_expired (db st) (formatDateTime now)) st"

text \<open>
  Two ticks that overlap: the second tick's \<open>SELECT\<close> is answered before the first tick's
  loop has written, then the first loop runs, then the second.
\<close>

definition two_ticks_overlapped ::
  "int \<Rightarrow> (int \<Rightarrow> int) \<Rightarrow> int \<Rightarrow> (int \<Rightarrow> int) \<Rightarrow> server \<Rightarrow> server \<times> server" where
  "two_ticks_overlapped now1 clock1 now2 clock2 st =
     (let rows1 = sql_select_expired (db st) (formatDateTime now1);
          rows2 = sql_select_expired (db st) (formatDateTime now2);
          st1 = sweep_apply clock1 rows1 st;
          st2 = sweep_apply clock2 rows2 st1
      in (st1, st2))"

text \<open>The \<open>auctionEnded\<close> messages for one auction among the calls of \<open>send\<close>.\<close>

fun is_ended_for :: "int \<Rightarrow> conn \<times> message \<Rightarrow> bool" where
  "is_ended_for i (c, AuctionEnded j t) = (j = Fin (rat_of_int i))"
| "is_ended_for i (c, _) = False"

definition ended_msgs :: "int \<Rightarrow> (conn \<times> message) list \<Rightarrow> (conn \<times> message) list" where
  "ended_msgs i out = filter (is_ended_for i) out"

text \<open>What one \<open>auctionEnded\<close> broadcast for a row sends: one message to every open
  connection of the room of its id.\<close>

definition ended_deliveries :: "(int \<Rightarrow> int) \<Rightarrow> server \<Rightarrow> auction \<Rightarrow> (conn \<times> message) list" where
  "ended_deliveries clock st a =
     map (\<lambda>c. (c, AuctionEnded (Fin (rat_of_int (aid a))) (clock (aid a))))
       (recipients st (Fin (rat_of_int (aid a))))"

section \<open>Properties of the registry\<close>

text \<open>No entry of \<open>rooms\<close> is an empty set.\<close>

definition no_empty_room :: "server \<Rightarrow> bool" where
  "no_empty_room st = (\<forall>i r. rooms st i = Some r \<longrightarrow> r \<noteq> [])"

section \<open>A running example\<close>

text \<open>
  The auction that \<open>ensureSchema\<close> inserts (price 100, running), open from instant 0 to
  instant 300000, with connection 0 in its room.
\<close>

definition demo_auction :: auction where
  "demo_auction =
     \<lparr>aid = 1, name = ''demo'', start_time = 0, end_time = 300000,
      current_price = 100, status = Running\<rparr>"

definition demo_server :: server where
  "demo_server =
     \<lparr>rooms = (\<lambda>_. None)(Fin 1 := Some [0]),
      ws_auctionId = (\<lambda>_. None)(0 := Some (Fin 1)),
      ws_open = (\<lambda>_. True),
      db = [demo_auction],
      outbox = []\<rparr>"

definition empty_server :: server where
  "empty_server =
     \<lparr>rooms = (\<lambda>_. None), ws_auctionId = (\<lambda>_. None), ws_open = (\<lambda>_. True),
      db = [demo_auction], outbox = []\<rparr>"

text \<open>The same with a second auction, of id 2 and price 500, in the table.\<close>

definition demo_server2 :: server where
  "demo_server2 =
     demo_server\<lparr>db := [demo_auction,
                         demo_auction\<lparr>aid := 2, name := ''other'', current_price := 500\<rparr>]\<rparr>"

text \<open>The conversion of the route parameters the examples use.\<close>

definition demo_Number :: "string \<Rightarrow> jsnum" where
  "demo_Number s = (if s = ''1'' then Fin 1 else if s = ''999'' then Fin 999 else NaN)"

definition demo_bid :: "rat \<Rightarrow> bid_request" where
  "demo_bid x = \<lparr>param_id = ''1'', body_amount = JNumber x, body_userId = JUndefined\<rparr>"

text \<open>
  The bids of 150 and 120 on the example, overlapping: the first request reads the clock
  at 1000 and stamps its payload at 1003, the second at 1001 and 1004.
\<close>

definition demo_race ::
  "(server \<times> (failure + bid_payload)) \<times> (server \<times> (failure + bid_payload))" where
  "demo_race =
     two_bids_overlapped demo_Number 1000 1003 1001 1004 (demo_bid 150) (demo_bid 120) demo_server"

text \<open>
  Two ticks on the example, overlapping: the tick of instant 300000 and the tick of
  instant 301000, whose messages are stamped 301050 and 301060.
\<close>

definition demo_ticks :: "server \<times> server" where
  "demo_ticks = two_ticks_overlapped 300000 (\<lambda>_. 301050) 301000 (\<lambda>_. 301060) demo_server"

section \<open>Facts about the bid endpoint\<close>

lemma bid_read_success:
  assumes "bid_read S now sf tbl req = Inr pb"
  shows "\<exists>a. S (param_id req) = Fin (pb_id pb) \<and> pb_id pb \<noteq> 0
           \<and> body_amount req = JNumber (pb_amount pb) \<and> 0 < pb_amount pb
           \<and> pb_userId pb = body_userId req \<and> \<not> sf
           \<and> find (\<lambda>a. rat_of_int (aid a) = pb_id pb) tbl = Some a
           \<and> start_time a \<le> now \<and> now \<le> end_time a \<and> status a \<noteq> Ended
           \<and> current_price a < pb_amount pb"
  using assms
  by (cases "S (param_id req)"; cases "body_amount req")
     (auto simp: bid_read_def sql_select_by_id_def split: option.splits if_splits)

text \<open>The column on a positive amount, and on the numerals of the examples.\<close>

lemma floor_rat_numeral:
  "\<lfloor>(numeral a / numeral b :: rat)\<rfloor> = numeral a div numeral b"
  using floor_divide_of_int_eq [of "numeral a" "numeral b", where ?'a = rat] by simp

lemma decimal_of_positive:
  assumes "0 < x"
  shows "decimal_10_2 x =
           (if rat_of_int \<lfloor>x * 100 + 1 / 2\<rfloor> / 100 < 100000000
            then Some (rat_of_int \<lfloor>x * 100 + 1 / 2\<rfloor> / 100) else None)"
proof -
  let ?n = "\<lfloor>x * 100 + 1 / 2\<rfloor>"
  from assms have "0 \<le> x * 100 + 1 / 2" by simp
  then have n0: "0 \<le> ?n" by simp
  have "(rat_of_int ?n / 100 < 100000000) = (rat_of_int ?n < rat_of_int (10 ^ 10))"
    by (simp add: field_simps)
  also have "\<dots> = (?n < 10 ^ 10)"
    by (rule of_int_less_iff)
  finally have "(rat_of_int ?n / 100 < 100000000) = (\<bar>?n\<bar> < 10 ^ 10)"
    using n0 by simp
  with assms show ?thesis
    by (simp add: decimal_10_2_def Let_def)
qed

lemma decimal_is_hundredth:
  assumes "decimal_10_2 p = Some v"
  shows "\<exists>k. v = rat_of_int k / 100"
proof -
  define n where
    "n = (if 0 \<le> p then \<lfloor>p * 100 + 1 / 2\<rfloor> else - \<lfloor>- p * 100 + 1 / 2\<rfloor>)"
  from assms have "v = rat_of_int n / 100"
    unfolding decimal_10_2_def Let_def n_def [symmetric]
    by (auto split: if_splits)
  then show ?thesis ..
qed

text \<open>Rounding an amount above a value of the column does not go below that value.\<close>

lemma decimal_not_below:
  assumes "decimal_10_2 p = Some p" and "p < x"
  shows "p \<le> rat_of_int \<lfloor>x * 100 + 1 / 2\<rfloor> / 100"
proof -
  from decimal_is_hundredth [OF assms(1)] obtain k where k: "p = rat_of_int k / 100" ..
  with assms(2) have "rat_of_int k < x * 100"
    by (simp add: field_simps)
  then have "rat_of_int k \<le> x * 100 + 1 / 2" by simp
  then have "k \<le> \<lfloor>x * 100 + 1 / 2\<rfloor>"
    by (simp add: le_floor_iff)
  then have "rat_of_int k \<le> rat_of_int \<lfloor>x * 100 + 1 / 2\<rfloor>"
    by (simp only: of_int_le_iff)
  with k show ?thesis by (simp add: divide_right_mono)
qed

lemma price_of_map_update:
  "find (\<lambda>a. rat_of_int (aid a) = q) tbl = Some a
     \<Longrightarrow> price_of (map (\<lambda>a. if rat_of_int (aid a) = q
                              then a\<lparr>current_price := v, status := s\<rparr> else a) tbl) q = Some v"
  by (induction tbl) (auto simp: price_of_def)

text \<open>What the \<open>UPDATE\<close> of a bid that passed the checks does to the table.\<close>

lemma sql_update_price_checked:
  assumes "find (\<lambda>a. rat_of_int (aid a) = q) tbl = Some a" and "0 < x"
  shows "sql_update_price tbl x s q =
           (if rat_of_int \<lfloor>x * 100 + 1 / 2\<rfloor> / 100 < 100000000
            then Some (map (\<lambda>a. if rat_of_int (aid a) = q
                       then a\<lparr>current_price := rat_of_int \<lfloor>x * 100 + 1 / 2\<rfloor> / 100,
                              status := s\<rparr> else a) tbl)
            else None)"
  using assms(1) by (simp add: sql_update_price_def decimal_of_positive [OF assms(2)])

lemma bid_write_effect:
  "sql_update_price (db st) (pb_amount pb) Running (pb_id pb) = Some tbl \<Longrightarrow>
   bid_write now2 False pb st = (st', r) \<Longrightarrow>
     \<exists>p. r = Inr p \<and> p = \<lparr>auctionId = Fin (pb_id pb), newPrice = pb_amount pb,
              userId = (if truthy (pb_userId pb) then pb_userId pb else JString ''anonymous''),
              serverTime = now2\<rparr>
       \<and> db st' = tbl
       \<and> outbox st' = outbox st @ map (\<lambda>c. (c, BidUpdate p)) (recipients st (Fin (pb_id pb)))
       \<and> rooms st' = rooms st \<and> ws_auctionId st' = ws_auctionId st \<and> ws_open st' = ws_open st"
  by (auto simp: bid_write_def broadcastToAuction_def recipients_def Let_def split: option.splits)

text \<open>
  Claim C2, as the handler has it. The failure a bid is answered with is that of the first
  check that does not hold in the handler's order: (1) the id is a non-zero number and the
  amount is a number above 0, else InvalidInput; (2) the id resolves to a row, else
  NotFound; (3) the auction has started, else NotStarted; (4) the end time has not passed
  and the status is not ended, else Closed; (5) the amount exceeds the current price, else
  PriceTooLow. A bid fails with none of them exactly when every check holds.
\<close>

theorem bid_checks_in_handler_order:
  "failure_of (bid_read S now False tbl req) = first_failure (handler_checks S now tbl req)"
  by (cases "S (param_id req)"; cases "body_amount req")
     (auto simp: bid_read_def handler_checks_def failure_of_def id_given_def amount_positive_def
        id_resolves_def row_of_def has_started_def still_open_def exceeds_price_def
        sql_select_by_id_def split: option.splits)

text \<open>
  On the example auction (price 100, open at instant 1000) a bid of 50 passes the first
  four checks and fails the fifth.
\<close>

theorem bid_checks_in_handler_order_witness:
  "failure_of (bid_read demo_Number 1000 False [demo_auction] (demo_bid 50)) = Some PriceTooLow"
  unfolding bid_checks_in_handler_order
  by (simp add: handler_checks_def id_given_def amount_positive_def id_resolves_def
        row_of_def has_started_def still_open_def exceeds_price_def demo_Number_def
        demo_bid_def demo_auction_def)

text \<open>
  Claim C2, as stated, fails: for a bid of amount 0 on the unknown auction 999 the order of
  the specification gives NotFound (existence is its first check), the handler answers
  InvalidInput.
\<close>

theorem bid_checks_spec_order_counterexample:
  "failure_of (bid_read demo_Number 1000 False [demo_auction]
      \<lparr>param_id = ''999'', body_amount = JNumber 0, body_userId = JUndefined\<rparr>)
     = Some InvalidInput
   \<and> first_failure (spec_checks demo_Number 1000 [demo_auction]
      \<lparr>param_id = ''999'', body_amount = JNumber 0, body_userId = JUndefined\<rparr>)
     = Some NotFound"
  by (simp add: bid_read_def spec_checks_def failure_of_def amount_positive_def
        id_resolves_def row_of_def has_started_def still_open_def exceeds_price_def
        sql_select_by_id_def demo_Number_def demo_auction_def)

text \<open>
  Claim C6. A bid that passes the checks of its arguments, on an auction that exists and
  whose window is well formed (start before end), submitted when the clock is strictly
  after the end time, fails with Closed and changes nothing, whatever the stored status
  is: the handler compares the clock with the end time itself.
\<close>

theorem closed_after_end_time:
  assumes "id_given S req" and "amount_positive req"
    and "row_of S (db st) req = Some a"
    and "start_time a < end_time a"
    and "end_time a < now"
  shows "bid S now now2 False update_throws req st = (st, Inl Closed)"
  using assms
  by (cases "S (param_id req)"; cases "body_amount req")
     (auto simp: bid_def bid_read_def id_given_def amount_positive_def row_of_def
        sql_select_by_id_def)

text \<open>
  The example auction ends at 300000 and is still stored as running at 300001, before the
  sweeper has run: the bid of 150 is closed.
\<close>

theorem closed_after_end_time_witness:
  "status demo_auction = Running
   \<and> bid demo_Number 300001 300002 False False (demo_bid 150) demo_server
       = (demo_server, Inl Closed)"
proof
  show "status demo_auction = Running"
    by (simp add: demo_auction_def)
  show "bid demo_Number 300001 300002 False False (demo_bid 150) demo_server
          = (demo_server, Inl Closed)"
    by (rule closed_after_end_time [where a = demo_auction])
       (simp_all add: id_given_def amount_positive_def row_of_def demo_Number_def
          demo_bid_def demo_server_def demo_auction_def)
qed

text \<open>A run of the whole handler either fails and leaves the state as it was, or it
  passed every check and is the write of the bid that was read.\<close>

lemma bid_cases:
  assumes "bid S now now2 sf uf req st = (st', r)"
  obtains (fail) e where "r = Inl e" "st' = st"
  | (ok) pb tbl where "bid_read S now sf (db st) req = Inr pb" "\<not> uf"
      "sql_update_price (db st) (pb_amount pb) Running (pb_id pb) = Some tbl"
      "bid_write now2 False pb st = (st', r)"
  using assms
  by (auto simp: bid_def bid_write_def split: sum.splits if_splits option.splits)

lemmas demo_defs = demo_Number_def demo_bid_def demo_server_def demo_auction_def

text \<open>
  Claim C9. A bid that is answered with a failure, whichever it is (a failed check, the
  store raising at the \<open>SELECT\<close> or at the \<open>UPDATE\<close>, the column refusing the amount),
  leaves the whole state as it was: no row is written and nothing is sent. A bid that
  succeeds changes the table in the rows of its own auction id and in no other row: there
  the price becomes the amount rounded to two decimals and the status becomes running. It
  sends its payload once to every open connection of the room, and nothing else.
\<close>

theorem bid_atomic:
  assumes "bid S now now2 sf uf req st = (st', r)"
  shows "(\<forall>e. r = Inl e \<longrightarrow> st' = st)
       \<and> (\<forall>p. r = Inr p \<longrightarrow>
            (\<exists>q x v. S (param_id req) = Fin q \<and> body_amount req = JNumber x
               \<and> v = rat_of_int \<lfloor>x * 100 + 1 / 2\<rfloor> / 100 \<and> v < 100000000
               \<and> db st' = map (\<lambda>a. if rat_of_int (aid a) = q
                                     then a\<lparr>current_price := v, status := Running\<rparr>
                                     else a) (db st)
               \<and> length (db st') = length (db st)
               \<and> (\<forall>k < length (db st).
                     rat_of_int (aid (db st ! k)) \<noteq> q \<longrightarrow> db st' ! k = db st ! k)
               \<and> price_of (db st') q = Some v
               \<and> auctionId p = Fin q \<and> newPrice p = x
               \<and> outbox st' = outbox st @ map (\<lambda>c. (c, BidUpdate p)) (recipients st (Fin q))
               \<and> rooms st' = rooms st \<and> ws_auctionId st' = ws_auctionId st
               \<and> ws_open st' = ws_open st))"
  using assms
proof (cases rule: bid_cases)
  case (fail e)
  then show ?thesis by simp
next
  case (ok pb tbl)
  let ?v = "rat_of_int \<lfloor>pb_amount pb * 100 + 1 / 2\<rfloor> / 100"
  let ?f = "\<lambda>a. if rat_of_int (aid a) = pb_id pb
                 then a\<lparr>current_price := ?v, status := Running\<rparr> else a"
  from bid_read_success [OF ok(1)] obtain a where
    a: "S (param_id req) = Fin (pb_id pb)" "body_amount req = JNumber (pb_amount pb)"
       "find (\<lambda>a. rat_of_int (aid a) = pb_id pb) (db st) = Some a" "0 < pb_amount pb"
    by blast
  from sql_update_price_checked [OF a(3,4), of Running] ok(3)
  have v: "?v < 100000000" and tbl: "tbl = map ?f (db st)"
    by (simp_all split: if_splits)
  from bid_write_effect [OF ok(3,4)] obtain p where
    p: "r = Inr p" "auctionId p = Fin (pb_id pb)" "newPrice p = pb_amount pb"
       "db st' = tbl"
       "outbox st' = outbox st @ map (\<lambda>c. (c, BidUpdate p)) (recipients st (Fin (pb_id pb)))"
       "rooms st' = rooms st" "ws_auctionId st' = ws_auctionId st" "ws_open st' = ws_open st"
    by auto
  from p(4) tbl have d: "db st' = map ?f (db st)"
    by simp
  have len: "length (db st') = length (db st)"
    unfolding d by simp
  have other: "\<forall>k < length (db st).
      rat_of_int (aid (db st ! k)) \<noteq> pb_id pb \<longrightarrow> db st' ! k = db st ! k"
    unfolding d by simp
  have price: "price_of (db st') (pb_id pb) = Some ?v"
    unfolding d by (rule price_of_map_update [OF a(3)])
  show ?thesis
  proof (intro conjI allI impI)
    fix e
    assume "r = Inl e"
    with p(1) show "st' = st" by simp
  next
    fix p'
    assume "r = Inr p'"
    with p(1) have same: "p' = p" by simp
    show "\<exists>q x v. S (param_id req) = Fin q \<and> body_amount req = JNumber x
               \<and> v = rat_of_int \<lfloor>x * 100 + 1 / 2\<rfloor> / 100 \<and> v < 100000000
               \<and> db st' = map (\<lambda>a. if rat_of_int (aid a) = q
                                     then a\<lparr>current_price := v, status := Running\<rparr>
                                     else a) (db st)
               \<and> length (db st') = length (db st)
               \<and> (\<forall>k < length (db st).
                     rat_of_int (aid (db st ! k)) \<noteq> q \<longrightarrow> db st' ! k = db st ! k)
               \<and> price_of (db st') q = Some v
               \<and> auctionId p' = Fin q \<and> newPrice p' = x
               \<and> outbox st' = outbox st @ map (\<lambda>c. (c, BidUpdate p')) (recipients st (Fin q))
               \<and> rooms st' = rooms st \<and> ws_auctionId st' = ws_auctionId st
               \<and> ws_open st' = ws_open st"
      unfolding same
      by (rule exI [of _ "pb_id pb"], rule exI [of _ "pb_amount pb"], rule exI [of _ ?v])
         (intro conjI refl a(1) a(2) v d len other price p(2) p(3) p(5) p(6) p(7) p(8))
  qed
qed

text \<open>
  On the example with two auctions: the bid of 50 fails (the price is 100) and the state is
  the same; the bid of 100000000 passes the checks, the column refuses it, and the state is
  the same; the bid of 150.005 succeeds, the row of auction 1 holds 150.01, the row of
  auction 2 is as it was, and connection 0 is sent one message.
\<close>

theorem bid_atomic_witness:
  "fst (bid demo_Number 1000 1001 False False (demo_bid 50) demo_server2) = demo_server2
   \<and> bid demo_Number 1000 1001 False False (demo_bid 100000000) demo_server2
       = (demo_server2, Inl StoreUnavailable)
   \<and> db (fst (bid demo_Number 1000 1001 False False (demo_bid (30001 / 200)) demo_server2))
       = [demo_auction\<lparr>current_price := 15001 / 100\<rparr>,
          demo_auction\<lparr>aid := 2, name := ''other'', current_price := 500\<rparr>]
   \<and> outbox (fst (bid demo_Number 1000 1001 False False (demo_bid (30001 / 200)) demo_server2))
       = [(0, BidUpdate \<lparr>auctionId = Fin 1, newPrice = 30001 / 200,
                          userId = JString ''anonymous'', serverTime = 1001\<rparr>)]"
proof -
  let ?lo = "bid demo_Number 1000 1001 False False (demo_bid 50) demo_server2"
  let ?big = "bid demo_Number 1000 1001 False False (demo_bid 100000000) demo_server2"
  let ?hi = "bid demo_Number 1000 1001 False False (demo_bid (30001 / 200)) demo_server2"
  let ?p = "\<lparr>auctionId = Fin 1, newPrice = 30001 / 200, userId = JString ''anonymous'',
             serverTime = 1001\<rparr>"
  note ev = bid_def bid_read_def bid_write_def sql_select_by_id_def sql_update_price_def
    decimal_10_2_def floor_rat_numeral Let_def demo_defs demo_server2_def
  have lo: "snd ?lo = Inl PriceTooLow"
    by (simp add: ev)
  have big: "snd ?big = Inl StoreUnavailable"
    by (simp add: ev)
  have hi: "snd ?hi = Inr ?p"
    by (simp add: ev)
  have r: "recipients demo_server2 (Fin 1) = [0]"
    by (simp add: recipients_def demo_defs demo_server2_def)
  from bid_atomic [OF prod.collapse [symmetric],
      of demo_Number 1000 1001 False False "demo_bid 50" demo_server2] lo
  have 1: "fst ?lo = demo_server2" by simp
  from bid_atomic [OF prod.collapse [symmetric],
      of demo_Number 1000 1001 False False "demo_bid 100000000" demo_server2] big
  have "fst ?big = demo_server2" by simp
  with big have 2: "?big = (demo_server2, Inl StoreUnavailable)"
    by (metis prod.collapse)
  from bid_atomic [OF prod.collapse [symmetric],
      of demo_Number 1000 1001 False False "demo_bid (30001 / 200)" demo_server2] hi
  obtain q x v where
    q: "demo_Number (param_id (demo_bid (30001 / 200))) = Fin q"
    and x: "body_amount (demo_bid (30001 / 200)) = JNumber x"
    and v: "v = rat_of_int \<lfloor>x * 100 + 1 / 2\<rfloor> / 100"
    and d: "db (fst ?hi) = map (\<lambda>a. if rat_of_int (aid a) = q
                                     then a\<lparr>current_price := v, status := Running\<rparr>
                                     else a) (db demo_server2)"
    and out: "outbox (fst ?hi)
                = outbox demo_server2 @ map (\<lambda>c. (c, BidUpdate ?p)) (recipients demo_server2 (Fin q))"
    by auto
  from q have q1: "q = 1"
    by (simp add: demo_defs)
  from x have "x = 30001 / 200"
    by (simp add: demo_defs)
  with v have v1: "v = 15001 / 100"
    by simp
  have 3: "db (fst ?hi) = [demo_auction\<lparr>current_price := 15001 / 100\<rparr>,
          demo_auction\<lparr>aid := 2, name := ''other'', current_price := 500\<rparr>]
     \<and> outbox (fst ?hi) = [(0, BidUpdate ?p)]"
    unfolding d out q1 v1 r
    by (simp add: demo_defs demo_server2_def)
  from 1 2 3 show ?thesis by simp
qed

text \<open>
  Claim C10. When a bid succeeds and the \<open>userId\<close> of its body is absent or falsy (null,
  false, 0, the empty string), the payload returned to the submitter has \<open>userId\<close>
  "anonymous", and that same payload is what the room is sent.
\<close>

theorem anonymous_when_userId_falsy:
  assumes "bid S now now2 sf uf req st = (st', Inr p)" and "\<not> truthy (body_userId req)"
  shows "userId p = JString ''anonymous''
       \<and> (\<exists>q. S (param_id req) = Fin q
            \<and> outbox st' = outbox st @ map (\<lambda>c. (c, BidUpdate p)) (recipients st (Fin q)))"
  using assms(1)
proof (cases rule: bid_cases)
  case (fail e)
  then show ?thesis by simp
next
  case (ok pb tbl)
  from bid_read_success [OF ok(1)] have
    a: "S (param_id req) = Fin (pb_id pb)" "pb_userId pb = body_userId req"
    by blast+
  from bid_write_effect [OF ok(3,4)] a(2) assms(2) have
    "userId p = JString ''anonymous''"
    "outbox st' = outbox st @ map (\<lambda>c. (c, BidUpdate p)) (recipients st (Fin (pb_id pb)))"
    by auto
  with a show ?thesis by simp
qed

text \<open>A bid of 150 whose \<open>userId\<close> is the empty string.\<close>

theorem anonymous_when_userId_falsy_witness:
  "userId (projr (snd (bid demo_Number 1000 1001 False False
      \<lparr>param_id = ''1'', body_amount = JNumber 150, body_userId = JString []\<rparr> demo_server)))
     = JString ''anonymous''"
proof -
  let ?req = "\<lparr>param_id = ''1'', body_amount = JNumber 150, body_userId = JString []\<rparr>"
  let ?out = "bid demo_Number 1000 1001 False False ?req demo_server"
  have "\<exists>p. snd ?out = Inr p"
    by (simp add: bid_def bid_read_def bid_write_def sql_select_by_id_def
          sql_update_price_def decimal_10_2_def floor_rat_numeral Let_def demo_defs)
  then obtain p where p: "snd ?out = Inr p" ..
  then have "?out = (fst ?out, Inr p)"
    by (metis prod.collapse)
  from anonymous_when_userId_falsy [OF this] have "userId p = JString ''anonymous''"
    by simp
  with p show ?thesis by simp
qed

text \<open>
  Claim C1, as the handler has it. The handler writes the amount after it has compared it
  with the price of the row it read; it does not compare again at the write and does not
  retry. For a bid handled with no other write between its read and its write, on an open
  auction whose stored price is a value of the column: the bid passes the price check
  exactly when its amount is strictly above the persisted price. It then commits, unless
  the column refuses the amount, in which case the bid fails and the state is as it was.
  After the commit the persisted price is the amount rounded to two decimals, which is
  not below the price it replaces. A bid that is not above the persisted price fails with
  PriceTooLow and the state is as it was. So a lower amount does not replace a higher
  persisted price.
\<close>

theorem bid_commit_one_at_a_time:
  assumes "S (param_id req) = Fin q" and "q \<noteq> 0"
    and "body_amount req = JNumber x" and "0 < x"
    and "find (\<lambda>a. rat_of_int (aid a) = q) (db st) = Some a"
    and "start_time a \<le> now" and "now \<le> end_time a" and "status a \<noteq> Ended"
    and "decimal_10_2 (current_price a) = Some (current_price a)"
  shows "price_of (db st) q = Some (current_price a)
       \<and> (if current_price a < x
          then (if rat_of_int \<lfloor>x * 100 + 1 / 2\<rfloor> / 100 < 100000000
                then \<exists>st' p. bid S now now2 False False req st = (st', Inr p)
                       \<and> newPrice p = x
                       \<and> price_of (db st') q = Some (rat_of_int \<lfloor>x * 100 + 1 / 2\<rfloor> / 100)
                       \<and> current_price a \<le> rat_of_int \<lfloor>x * 100 + 1 / 2\<rfloor> / 100
                else bid S now now2 False False req st = (st, Inl StoreUnavailable))
          else bid S now now2 False False req st = (st, Inl PriceTooLow))"
proof -
  let ?v = "rat_of_int \<lfloor>x * 100 + 1 / 2\<rfloor> / 100"
  let ?f = "\<lambda>a. if rat_of_int (aid a) = q
                 then a\<lparr>current_price := ?v, status := Running\<rparr> else a"
  have 1: "price_of (db st) q = Some (current_price a)"
    using assms(5) by (simp add: price_of_def)
  have rd: "bid_read S now False (db st) req =
      (if x \<le> current_price a then Inl PriceTooLow
       else Inr \<lparr>pb_id = q, pb_amount = x, pb_userId = body_userId req\<rparr>)"
    using assms(1-8) by (simp add: bid_read_def sql_select_by_id_def)
  have up: "sql_update_price (db st) x Running q =
      (if ?v < 100000000 then Some (map ?f (db st)) else None)"
    by (rule sql_update_price_checked [OF assms(5,4)])
  have 2: "price_of (map ?f (db st)) q = Some ?v"
    by (rule price_of_map_update [OF assms(5)])
  have 3: "current_price a < x \<Longrightarrow> current_price a \<le> ?v"
    by (rule decimal_not_below [OF assms(9)])
  show ?thesis
    using 1 2 3
    by (auto simp: bid_def rd up bid_write_def Let_def broadcastToAuction_def
          split: option.splits)
qed

text \<open>
  Price 100, the bid of 150 handled first and the bid of 120 after it: 150 commits, and
  against the price 150 the bid of 120 fails with PriceTooLow. A bid of 100.004 on the
  price 100 commits too, and the persisted price stays 100.
\<close>

theorem bid_commit_one_at_a_time_witness:
  "(\<exists>st' p. bid demo_Number 1000 1001 False False (demo_bid 150) demo_server = (st', Inr p)
       \<and> newPrice p = 150 \<and> price_of (db st') 1 = Some 150)
   \<and> bid demo_Number 1002 1003 False False (demo_bid 120)
        (demo_server\<lparr>db := [demo_auction\<lparr>current_price := 150\<rparr>]\<rparr>)
      = (demo_server\<lparr>db := [demo_auction\<lparr>current_price := 150\<rparr>]\<rparr>, Inl PriceTooLow)
   \<and> (\<exists>st' p. bid demo_Number 1000 1001 False False (demo_bid (25001 / 250)) demo_server
                 = (st', Inr p)
       \<and> newPrice p = 25001 / 250 \<and> price_of (db st') 1 = Some 100)"
proof (intro conjI)
  from bid_commit_one_at_a_time
    [of demo_Number "demo_bid 150" 1 150 demo_server demo_auction 1000 1001]
  show "\<exists>st' p. bid demo_Number 1000 1001 False False (demo_bid 150) demo_server = (st', Inr p)
       \<and> newPrice p = 150 \<and> price_of (db st') 1 = Some 150"
    by (simp add: demo_defs decimal_10_2_def floor_rat_numeral)
  from bid_commit_one_at_a_time
    [of demo_Number "demo_bid 120" 1 120
      "demo_server\<lparr>db := [demo_auction\<lparr>current_price := 150\<rparr>]\<rparr>"
      "demo_auction\<lparr>current_price := 150\<rparr>" 1002 1003]
  show "bid demo_Number 1002 1003 False False (demo_bid 120)
        (demo_server\<lparr>db := [demo_auction\<lparr>current_price := 150\<rparr>]\<rparr>)
      = (demo_server\<lparr>db := [demo_auction\<lparr>current_price := 150\<rparr>]\<rparr>, Inl PriceTooLow)"
    by (simp add: demo_defs decimal_10_2_def floor_rat_numeral)
  from bid_commit_one_at_a_time
    [of demo_Number "demo_bid (25001 / 250)" 1 "25001 / 250" demo_server demo_auction 1000 1001]
  show "\<exists>st' p. bid demo_Number 1000 1001 False False (demo_bid (25001 / 250)) demo_server
                 = (st', Inr p)
       \<and> newPrice p = 25001 / 250 \<and> price_of (db st') 1 = Some 100"
    by (simp add: demo_defs decimal_10_2_def floor_rat_numeral)
qed

text \<open>
  The two overlapping bids of 150 and 120 on the example: both read the price 100, both
  pass the price check, and both write.
\<close>

lemma demo_overlap:
  "demo_race =
     ((demo_server\<lparr>db := [demo_auction\<lparr>current_price := 150\<rparr>],
         outbox := [(0, BidUpdate \<lparr>auctionId = Fin 1, newPrice = 150,
                       userId = JString ''anonymous'', serverTime = 1003\<rparr>)]\<rparr>,
       Inr \<lparr>auctionId = Fin 1, newPrice = 150, userId = JString ''anonymous'',
            serverTime = 1003\<rparr>),
      (demo_server\<lparr>db := [demo_auction\<lparr>current_price := 120\<rparr>],
         outbox := [(0, BidUpdate \<lparr>auctionId = Fin 1, newPrice = 150,
                       userId = JString ''anonymous'', serverTime = 1003\<rparr>),
                    (0, BidUpdate \<lparr>auctionId = Fin 1, newPrice = 120,
                       userId = JString ''anonymous'', serverTime = 1004\<rparr>)]\<rparr>,
       Inr \<lparr>auctionId = Fin 1, newPrice = 120, userId = JString ''anonymous'',
            serverTime = 1004\<rparr>))"
  by (simp add: demo_race_def two_bids_overlapped_def bid_read_def bid_write_def
        sql_select_by_id_def sql_update_price_def decimal_10_2_def floor_rat_numeral
        broadcastToAuction_def Let_def demo_defs)

text \<open>
  Claim C1, as stated, fails: with price 100 and the overlapping bids of 150 and 120,
  neither bid fails, the write of 120 is not refused, and it replaces the persisted 150.
\<close>

theorem concurrent_bids_counterexample:
  "failure_of (snd (fst demo_race)) = None
   \<and> failure_of (snd (snd demo_race)) = None
   \<and> price_of (db demo_server) 1 = Some 100
   \<and> price_of (db (fst (fst demo_race))) 1 = Some 150
   \<and> price_of (db (fst (snd demo_race))) 1 = Some 120"
  unfolding demo_overlap
  by (simp add: failure_of_def price_of_def demo_auction_def demo_server_def)

text \<open>
  Claim C5 on two overlapping bids. Connection 0 is sent the prices 150 and then 120, and
  the persisted price goes from 100 to 150 and down to 120: the accepted bid of 120 does
  not exceed the price it replaces.
\<close>

theorem overlapped_bids_price_falls:
  "bid_prices 0 (outbox (fst (snd demo_race))) = [150, 120]
   \<and> map (\<lambda>tbl. price_of tbl 1)
         [db demo_server, db (fst (fst demo_race)), db (fst (snd demo_race))]
       = [Some 100, Some 150, Some 120]"
  unfolding demo_overlap
  by (simp add: price_of_def demo_auction_def demo_server_def)

text \<open>The prices connection 0 is sent are not in increasing order.\<close>

theorem overlapped_bids_price_falls_witness:
  "\<not> sorted_wrt (<) (bid_prices 0 (outbox (fst (snd demo_race))))"
  using overlapped_bids_price_falls by simp

section \<open>Facts about the time-sync endpoint\<close>

text \<open>
  Claim C7. The reply to a time-sync request carries the clock of the server as
  \<open>serverTime\<close>; a numeric \<open>clientTime\<close> is echoed as it is, a string is replaced by its
  timestamp in milliseconds; the request fails, and then with InvalidInput, exactly when
  \<open>clientTime\<close> is neither a number nor a string (absent included).
\<close>

theorem time_sync_contract:
  "time_sync D now (JNumber r) = Inr \<lparr>ts_serverTime = now, ts_clientTime = Fin r\<rparr>
   \<and> time_sync D now (JString s) = Inr \<lparr>ts_serverTime = now, ts_clientTime = D s\<rparr>
   \<and> ((time_sync D now v = Inl InvalidInput) = (typeof v \<noteq> TNumber \<and> typeof v \<noteq> TString))
   \<and> (case time_sync D now v of
         Inl e \<Rightarrow> e = InvalidInput
       | Inr reply \<Rightarrow> ts_serverTime reply = now)"
  by (simp add: time_sync_def)

section \<open>Facts about the room registry\<close>

text \<open>Neither a join nor a leave makes an entry of \<open>rooms\<close> empty.\<close>

lemma joinRoom_no_empty: "no_empty_room st \<Longrightarrow> no_empty_room (joinRoom ws i st)"
  by (auto simp: no_empty_room_def joinRoom_def set_add_def Let_def split: option.splits)

lemma leaveRoom_no_empty: "no_empty_room st \<Longrightarrow> no_empty_room (leaveRoom ws st)"
  by (auto simp: no_empty_room_def leaveRoom_def set_delete_def Let_def split: option.splits if_splits)

lemma run_room_ops_no_empty: "no_empty_room st \<Longrightarrow> no_empty_room (run_room_ops ops st)"
proof (induction ops arbitrary: st)
  case Nil
  then show ?case by simp
next
  case (Cons x xs)
  then show ?case
    by (cases x) (simp_all add: joinRoom_no_empty leaveRoom_no_empty)
qed

text \<open>
  Claim C3 on a second join. Connection 0 joins room 1 and then room 2: it is a member of
  both, its \<open>_auctionId\<close> names room 2 only, and after it has left (its socket closed) it
  is still listed in room 1. \<open>joinRoom\<close> does not remove the earlier membership.
\<close>

theorem second_join_keeps_first_room:
  "rooms (run_room_ops [Join 0 (Fin 1), Join 0 (Fin 2)] empty_server) (Fin 1) = Some [0]
   \<and> rooms (run_room_ops [Join 0 (Fin 1), Join 0 (Fin 2)] empty_server) (Fin 2) = Some [0]
   \<and> ws_auctionId (run_room_ops [Join 0 (Fin 1), Join 0 (Fin 2)] empty_server) 0 = Some (Fin 2)
   \<and> rooms (run_room_ops [Join 0 (Fin 1), Join 0 (Fin 2), Leave 0] empty_server) (Fin 1) = Some [0]
   \<and> ws_auctionId (run_room_ops [Join 0 (Fin 1), Join 0 (Fin 2), Leave 0] empty_server) 0 = None"
  by (simp add: joinRoom_def leaveRoom_def set_add_def set_delete_def empty_server_def Let_def)

text \<open>
  Claim C8, as the handler has it. A \<open>joinAuction\<close> frame whose auction id converts to 0 or
  to NaN (zero, absent, null, not numeric) changes nothing: nothing is sent, no room entry
  is made, the connection gains no membership. A frame with any other id, negative or
  unknown included, enters the connection in the room of that id; when no auction has that
  id, nothing is sent to the connection, so there is no error reply either.
\<close>

theorem join_falsy_id_is_noop:
  "(falsy_num (js_Number S v) \<longrightarrow>
      on_message S now ws (Json (JString ''joinAuction'') v) st = st)
   \<and> (\<not> falsy_num (js_Number S v) \<longrightarrow>
        (\<exists>r. rooms (on_message S now ws (Json (JString ''joinAuction'') v) st) (js_Number S v) = Some r
              \<and> ws \<in> set r)
        \<and> ws_auctionId (on_message S now ws (Json (JString ''joinAuction'') v) st) ws
            = Some (js_Number S v)
        \<and> ((case js_Number S v of Fin q \<Rightarrow> sql_select_by_id (db st) q = [] | NaN \<Rightarrow> True) \<longrightarrow>
             outbox (on_message S now ws (Json (JString ''joinAuction'') v) st) = outbox st))"
  by (cases "js_Number S v")
     (auto simp: on_message_def joinRoom_def set_add_def Let_def split: list.splits option.splits)

text \<open>The ids 0 and absent are ignored; the unknown id 999 is joined with no reply.\<close>

theorem join_falsy_id_is_noop_witness:
  "on_message demo_Number 1000 5 (Json (JString ''joinAuction'') (JNumber 0)) empty_server = empty_server
   \<and> on_message demo_Number 1000 5 (Json (JString ''joinAuction'') JUndefined) empty_server = empty_server
   \<and> ws_auctionId (on_message demo_Number 1000 5 (Json (JString ''joinAuction'') (JNumber 999)) empty_server) 5 = Some (Fin 999)
   \<and> outbox (on_message demo_Number 1000 5 (Json (JString ''joinAuction'') (JNumber 999)) empty_server) = []"
  using join_falsy_id_is_noop [of demo_Number "JNumber 0" 1000 5 empty_server]
    join_falsy_id_is_noop [of demo_Number JUndefined 1000 5 empty_server]
    join_falsy_id_is_noop [of demo_Number "JNumber 999" 1000 5 empty_server]
  by (simp add: sql_select_by_id_def empty_server_def demo_auction_def)

text \<open>
  Claim C8, as stated, fails: a join with the negative id -1, and a join with the id 999
  of no auction, each create a room entry with connection 5 in it.
\<close>

theorem join_negative_or_unknown_counterexample:
  "rooms empty_server (Fin (- 1)) = None
   \<and> rooms (on_message demo_Number 1000 5 (Json (JString ''joinAuction'') (JNumber (- 1))) empty_server)
       (Fin (- 1)) = Some [5]
   \<and> ws_auctionId (on_message demo_Number 1000 5 (Json (JString ''joinAuction'') (JNumber (- 1))) empty_server) 5
       = Some (Fin (- 1))
   \<and> sql_select_by_id (db empty_server) 999 = []
   \<and> rooms (on_message demo_Number 1000 5 (Json (JString ''joinAuction'') (JNumber 999)) empty_server)
       (Fin 999) = Some [5]"
  by (simp add: on_message_def joinRoom_def set_add_def sql_select_by_id_def empty_server_def
        demo_auction_def Let_def)

section \<open>Facts about the expiry sweeper\<close>

text \<open>The loop of a tick touches the table and the outbox only, and sends for each row it
  was given what one broadcast to the room of that row sends.\<close>

lemma sweep_apply_frame:
  "rooms (sweep_apply clock rows st) = rooms st
   \<and> ws_open (sweep_apply clock rows st) = ws_open st
   \<and> ws_auctionId (sweep_apply clock rows st) = ws_auctionId st"
  by (induction rows arbitrary: st)
     (auto simp: broadcastToAuction_def split: option.splits)

lemma ended_deliveries_cong:
  "rooms st' = rooms st \<Longrightarrow> ws_open st' = ws_open st
     \<Longrightarrow> ended_deliveries clock st' = ended_deliveries clock st"
  by (rule ext) (simp add: ended_deliveries_def recipients_def split: option.splits)

lemma broadcast_outbox:
  "outbox (broadcastToAuction i m st) = outbox st @ map (\<lambda>c. (c, m)) (recipients st i)"
  by (simp add: broadcastToAuction_def recipients_def split: option.splits)

lemma broadcast_frame:
  "rooms (broadcastToAuction i m st) = rooms st
   \<and> ws_open (broadcastToAuction i m st) = ws_open st
   \<and> db (broadcastToAuction i m st) = db st"
  by (simp add: broadcastToAuction_def split: option.splits)

lemma sweep_apply_outbox:
  "outbox (sweep_apply clock rows st)
     = outbox st @ concat (map (ended_deliveries clock st) rows)"
proof (induction rows arbitrary: st)
  case Nil
  then show ?case by simp
next
  case (Cons a rows)
  let ?st1 = "broadcastToAuction (Fin (rat_of_int (aid a)))
          (AuctionEnded (Fin (rat_of_int (aid a))) (clock (aid a)))
          (st\<lparr>db := sql_update_status (db st) Ended (aid a)\<rparr>)"
  have same: "ended_deliveries clock ?st1 = ended_deliveries clock st"
    by (rule ended_deliveries_cong) (simp_all add: broadcast_frame)
  have out1: "outbox ?st1 = outbox st @ ended_deliveries clock st a"
    by (simp add: broadcast_outbox ended_deliveries_def recipients_def split: option.splits)
  show ?case
    by (simp add: Cons.IH same out1)
qed

lemma sweep_apply_db:
  "db (sweep_apply clock rows st)
     = map (\<lambda>b. if aid b \<in> aid ` set rows then b\<lparr>status := Ended\<rparr> else b) (db st)"
proof (induction rows arbitrary: st)
  case Nil
  then show ?case by (simp add: map_idI)
next
  case (Cons a rows)
  show ?case
    by (auto simp: Cons.IH broadcast_frame sql_update_status_def)
qed

lemma filter_ended_deliveries:
  "filter (is_ended_for i) (ended_deliveries clock st b)
     = (if aid b = i then ended_deliveries clock st b else [])"
  by (auto simp: ended_deliveries_def filter_empty_conv intro: filter_True)

lemma ended_msgs_absent:
  "i \<notin> aid ` set rows
     \<Longrightarrow> ended_msgs i (concat (map (ended_deliveries clock st) rows)) = []"
  by (induction rows) (auto simp: ended_msgs_def filter_ended_deliveries)

lemma ended_msgs_once:
  "distinct (map aid rows) \<Longrightarrow> a \<in> set rows
     \<Longrightarrow> ended_msgs (aid a) (concat (map (ended_deliveries clock st) rows))
           = ended_deliveries clock st a"
proof (induction rows)
  case Nil
  then show ?case by simp
next
  case (Cons b rows)
  show ?case
  proof (cases "b = a")
    case True
    with Cons.prems have "aid a \<notin> aid ` set rows" by auto
    from ended_msgs_absent [OF this] True show ?thesis
      by (simp add: ended_msgs_def filter_ended_deliveries)
  next
    case False
    with Cons.prems have "a \<in> set rows" "aid b \<noteq> aid a" "distinct (map aid rows)"
      by auto
    with Cons.IH show ?thesis
      by (simp add: ended_msgs_def filter_ended_deliveries)
  qed
qed

lemma distinct_filter_aid:
  "distinct (map aid tbl) \<Longrightarrow> distinct (map aid (filter P tbl))"
  by (simp add: distinct_map_filter)

lemma find_by_aid:
  "distinct (map aid tbl) \<Longrightarrow> a \<in> set tbl \<Longrightarrow> find (\<lambda>b. aid b = aid a) tbl = Some a"
  by (induction tbl) (auto simp: rev_image_eqI)

lemma find_map_status:
  "find (\<lambda>b. aid b = i) (map (\<lambda>b. if P b then b\<lparr>status := s\<rparr> else b) tbl)
     = map_option (\<lambda>b. if P b then b\<lparr>status := s\<rparr> else b) (find (\<lambda>b. aid b = i) tbl)"
  by (induction tbl) auto

lemma selected_iff:
  assumes "distinct (map aid tbl)" and "b \<in> set tbl"
  shows "aid b \<in> aid ` set (sql_select_expired tbl t) \<longleftrightarrow> status b \<noteq> Ended \<and> end_time b \<le> t"
proof
  assume "aid b \<in> aid ` set (sql_select_expired tbl t)"
  then obtain c where c: "c \<in> set tbl" "status c \<noteq> Ended \<and> end_time c \<le> t" "aid c = aid b"
    by (auto simp: sql_select_expired_def)
  from assms c(1,3) have "c = b"
    by (metis distinct_map inj_onD)
  with c show "status b \<noteq> Ended \<and> end_time b \<le> t" by simp
next
  assume "status b \<noteq> Ended \<and> end_time b \<le> t"
  with assms(2) show "aid b \<in> aid ` set (sql_select_expired tbl t)"
    by (auto simp: sql_select_expired_def)
qed

lemma sweep_tick_db:
  assumes "distinct (map aid (db st))"
  shows "db (sweep_tick now clock st)
     = map (\<lambda>b. if status b \<noteq> Ended \<and> end_time b \<le> formatDateTime now
                then b\<lparr>status := Ended\<rparr> else b) (db st)"
  unfolding sweep_tick_def sweep_apply_db
  by (rule map_cong) (simp_all add: selected_iff [OF assms])

lemma sweep_tick_outbox:
  "outbox (sweep_tick now clock st)
     = outbox st @ concat (map (ended_deliveries clock st)
                            (sql_select_expired (db st) (formatDateTime now)))"
  by (simp add: sweep_tick_def sweep_apply_outbox)

lemma ended_msgs_append: "ended_msgs i (xs @ ys) = ended_msgs i xs @ ended_msgs i ys"
  by (simp add: ended_msgs_def)

text \<open>
  Claim C4, as the sweeper has it. Take a table with distinct ids and in it an auction that
  is not ended and whose end time has passed at the first tick. When the second tick
  starts after the first has finished: the auction is stored as ended after the first tick
  and after the second; the first tick sends one \<open>auctionEnded\<close> for it to every open
  connection of its room, the second sends none. A tick ends exactly the rows that its own
  query returned (not ended, end time passed) and broadcasts once for each of them.
\<close>

theorem sweep_twice_in_succession:
  assumes "distinct (map aid (db st))" and "a \<in> set (db st)"
    and "status a \<noteq> Ended" and "end_time a \<le> formatDateTime now1"
  shows "status_of (db (sweep_tick now1 clock1 st)) (aid a) = Some Ended
       \<and> status_of (db (sweep_tick now2 clock2 (sweep_tick now1 clock1 st))) (aid a) = Some Ended
       \<and> ended_msgs (aid a) (outbox (sweep_tick now1 clock1 st))
           = ended_msgs (aid a) (outbox st) @ ended_deliveries clock1 st a
       \<and> ended_msgs (aid a) (outbox (sweep_tick now2 clock2 (sweep_tick now1 clock1 st)))
           = ended_msgs (aid a) (outbox (sweep_tick now1 clock1 st))
       \<and> outbox (sweep_tick now1 clock1 st)
           = outbox st @ concat (map (ended_deliveries clock1 st)
                                  (sql_select_expired (db st) (formatDateTime now1)))
       \<and> db (sweep_tick now1 clock1 st)
           = map (\<lambda>b. if status b \<noteq> Ended \<and> end_time b \<le> formatDateTime now1
                      then b\<lparr>status := Ended\<rparr> else b) (db st)"
proof -
  let ?st1 = "sweep_tick now1 clock1 st"
  let ?st2 = "sweep_tick now2 clock2 ?st1"
  let ?f = "\<lambda>t b. if status b \<noteq> Ended \<and> end_time b \<le> formatDateTime t
                   then b\<lparr>status := Ended\<rparr> else b"
  let ?a' = "a\<lparr>status := Ended\<rparr>"
  have db1: "db ?st1 = map (?f now1) (db st)"
    by (rule sweep_tick_db [OF assms(1)])
  have "map aid (db ?st1) = map aid (db st)"
    unfolding db1 by simp
  with assms(1) have dist1: "distinct (map aid (db ?st1))"
    by simp
  have db2: "db ?st2 = map (?f now2) (db ?st1)"
    by (rule sweep_tick_db [OF dist1])
  have found: "find (\<lambda>b. aid b = aid a) (db st) = Some a"
    by (rule find_by_aid [OF assms(1,2)])
  have found1: "find (\<lambda>b. aid b = aid a) (db ?st1) = Some ?a'"
    unfolding db1 find_map_status using found assms(3,4) by simp
  have s1: "status_of (db ?st1) (aid a) = Some Ended"
    by (simp add: status_of_def found1)
  have s2: "status_of (db ?st2) (aid a) = Some Ended"
    unfolding status_of_def db2 find_map_status using found1 by simp
  have sel: "a \<in> set (sql_select_expired (db st) (formatDateTime now1))"
    using assms(2,3,4) by (simp add: sql_select_expired_def)
  have dsel: "distinct (map aid (sql_select_expired (db st) (formatDateTime now1)))"
    unfolding sql_select_expired_def by (rule distinct_filter_aid [OF assms(1)])
  have out1: "outbox ?st1 = outbox st @ concat (map (ended_deliveries clock1 st)
                (sql_select_expired (db st) (formatDateTime now1)))"
    by (rule sweep_tick_outbox)
  have m1: "ended_msgs (aid a) (outbox ?st1)
              = ended_msgs (aid a) (outbox st) @ ended_deliveries clock1 st a"
    unfolding out1 ended_msgs_append by (simp add: ended_msgs_once [OF dsel sel])
  have in1: "?a' \<in> set (db ?st1)"
    using found1 by (metis find_Some_iff nth_mem)
  from selected_iff [OF dist1 in1, of "formatDateTime now2"]
  have "aid a \<notin> aid ` set (sql_select_expired (db ?st1) (formatDateTime now2))"
    by simp
  from ended_msgs_absent [OF this]
  have m2: "ended_msgs (aid a) (outbox ?st2) = ended_msgs (aid a) (outbox ?st1)"
    by (simp add: sweep_tick_outbox [of now2 clock2 ?st1] ended_msgs_append)
  from s1 s2 m1 m2 out1 db1 show ?thesis
    by simp
qed

text \<open>The example auction, swept at its end time 300000 and again a second later.\<close>

theorem sweep_twice_in_succession_witness:
  "status_of (db demo_server) 1 = Some Running
   \<and> status_of (db (sweep_tick 300000 (\<lambda>_. 300001) demo_server)) 1 = Some Ended
   \<and> status_of (db (sweep_tick 301000 (\<lambda>_. 301001)
        (sweep_tick 300000 (\<lambda>_. 300001) demo_server))) 1 = Some Ended
   \<and> ended_msgs 1 (outbox (sweep_tick 301000 (\<lambda>_. 301001)
        (sweep_tick 300000 (\<lambda>_. 300001) demo_server)))
       = [(0, AuctionEnded (Fin 1) 300001)]"
proof -
  have 0: "status_of (db demo_server) 1 = Some Running"
    by (simp add: status_of_def demo_server_def demo_auction_def)
  have d: "ended_deliveries (\<lambda>_. 300001) demo_server demo_auction = [(0, AuctionEnded (Fin 1) 300001)]"
    by (simp add: ended_deliveries_def recipients_def demo_server_def demo_auction_def)
  have e: "ended_msgs 1 (outbox demo_server) = []"
    by (simp add: ended_msgs_def demo_server_def)
  have a: "aid demo_auction = 1"
    by (simp add: demo_auction_def)
  have "distinct (map aid (db demo_server))" "demo_auction \<in> set (db demo_server)"
    "status demo_auction \<noteq> Ended" "end_time demo_auction \<le> formatDateTime 300000"
    by (simp_all add: demo_server_def demo_auction_def formatDateTime_def)
  note th = sweep_twice_in_succession [OF this, of "\<lambda>_. 300001" 301000 "\<lambda>_. 301001",
      unfolded a]
  note s1 = th [THEN conjunct1]
  note s2 = th [THEN conjunct2, THEN conjunct1]
  note m1 = th [THEN conjunct2, THEN conjunct2, THEN conjunct1]
  note m2 = th [THEN conjunct2, THEN conjunct2, THEN conjunct2, THEN conjunct1]
  have "ended_msgs 1 (outbox (sweep_tick 301000 (\<lambda>_. 301001)
        (sweep_tick 300000 (\<lambda>_. 300001) demo_server)))
       = [(0, AuctionEnded (Fin 1) 300001)]"
    unfolding m2 m1 e d by simp
  with 0 s1 s2 show ?thesis by blast
qed

text \<open>
  Claim C4, as stated, fails: the \<open>UPDATE\<close> of the sweeper names the row by its id alone,
  and the broadcast follows it whatever it changed. When two ticks overlap, the second
  tick broadcasts \<open>auctionEnded\<close> again for a row the first has already ended.
\<close>

theorem overlapping_ticks_counterexample:
  "status_of (db (fst demo_ticks)) 1 = Some Ended
   \<and> ended_msgs 1 (outbox (fst demo_ticks)) = [(0, AuctionEnded (Fin 1) 301050)]
   \<and> ended_msgs 1 (outbox (snd demo_ticks))
       = [(0, AuctionEnded (Fin 1) 301050), (0, AuctionEnded (Fin 1) 301060)]"
  by (simp add: demo_ticks_def two_ticks_overlapped_def sql_select_expired_def
        sql_update_status_def formatDateTime_def broadcastToAuction_def status_of_def
        ended_msgs_def Let_def demo_server_def demo_auction_def)

end
